theory Spec2Isabelle
  imports Complex_Main "HOL-Library.AList"
begin

section \<open>Python values and the object store\<close>

text \<open>
  The engine of \<^verbatim>\<open>app/engine.py\<close> threads a state dictionary through the tools
  of a graph. Dictionaries and lists are mutable objects that several names may share, so
  they live in an explicit store and a value refers to them by address. The values are
  those of JSON: \<^verbatim>\<open>None\<close>, booleans, integers, floats, strings (code points below
  256), lists and string-keyed dictionaries. A dictionary is an association list in
  insertion order with distinct keys.

  A float is a rational number, an infinity or NaN. Python compares floats with each
  other and with integers by their exact values, so rounding plays no part in the
  comparisons of the engine.
\<close>

type_synonym addr = nat

datatype pyfloat = Finite rat | PosInf | NegInf | NaN

datatype pyval =
    PNone
  | PBool bool
  | PInt int
  | PFloat pyfloat
  | PStr string
  | PListRef addr
  | PDictRef addr

record heap =
  dicts :: "addr \<Rightarrow> (string \<times> pyval) list"
  lists :: "addr \<Rightarrow> pyval list"
  next_dict :: addr
  next_list :: addr

text \<open>
  The values held by a graph definition (\<^verbatim>\<open>EdgeDef.value\<close>) are parsed once from the
  request and never mutated afterwards: they are immutable trees.
\<close>

datatype jval =
    JNone
  | JBool bool
  | JInt int
  | JFloat pyfloat
  | JStr string
  | JList "jval list"
  | JDict "(string \<times> jval) list"

text \<open>
  The exceptions of a run. \<^verbatim>\<open>ToolException\<close> stands for an exception raised by a tool
  that is an instance of \<^verbatim>\<open>Exception\<close>, with its message; \<^verbatim>\<open>ToolBaseException\<close> for
  one that is not (\<^verbatim>\<open>asyncio.CancelledError\<close>, \<^verbatim>\<open>SystemExit\<close>,
  \<^verbatim>\<open>KeyboardInterrupt\<close>). \<^verbatim>\<open>ValidationError\<close> is pydantic's.
\<close>

datatype exn =
    KeyError string
  | TypeError string
  | ValueError string
  | AttributeError string
  | ValidationError string
  | ToolException string
  | ToolBaseException string

fun is_exception :: "exn \<Rightarrow> bool" where
  "is_exception (ToolBaseException _) = False"
| "is_exception _ = True"

subsection \<open>Dictionary and list operations\<close>

text \<open>\<^verbatim>\<open>d.get(k)\<close>: the value bound to \<open>k\<close>, \<^verbatim>\<open>None\<close> when the key is absent.\<close>

definition dict_get :: "heap \<Rightarrow> addr \<Rightarrow> string \<Rightarrow> pyval" where
  "dict_get h a k = (case map_of (dicts h a) k of None \<Rightarrow> PNone | Some v \<Rightarrow> v)"

text \<open>\<^verbatim>\<open>d[k] = v\<close>: rebinds \<open>k\<close> in place, or appends the new key.\<close>

definition dict_setitem :: "heap \<Rightarrow> addr \<Rightarrow> string \<Rightarrow> pyval \<Rightarrow> heap" where
  "dict_setitem h a k v = h\<lparr>dicts := (dicts h)(a := AList.update k v (dicts h a))\<rparr>"

text \<open>
  \<^verbatim>\<open>d.copy()\<close>: a new dictionary object with the same bindings. The copy is shallow: the
  values, and so the addresses of nested lists and dictionaries, are taken over as they are.
\<close>

definition dict_copy :: "heap \<Rightarrow> addr \<Rightarrow> heap \<times> addr" where
  "dict_copy h a =
     (h\<lparr>dicts := (dicts h)(next_dict h := dicts h a), next_dict := Suc (next_dict h)\<rparr>,
      next_dict h)"

text \<open>\<^verbatim>\<open>xs.copy()\<close>: a new list object with the same items.\<close>

definition list_copy :: "heap \<Rightarrow> addr \<Rightarrow> heap \<times> addr" where
  "list_copy h a =
     (h\<lparr>lists := (lists h)(next_list h := lists h a), next_list := Suc (next_list h)\<rparr>,
      next_list h)"

text \<open>\<^verbatim>\<open>xs.append(v)\<close>: extends the list object in place.\<close>

definition list_append :: "heap \<Rightarrow> addr \<Rightarrow> pyval \<Rightarrow> heap" where
  "list_append h a v = h\<lparr>lists := (lists h)(a := lists h a @ [v])\<rparr>"

subsection \<open>Equality and ordering of values\<close>

text \<open>
  Numbers: booleans are integers (\<^verbatim>\<open>True == 1\<close>), and integers compare with floats by
  value. NaN is unequal to every number, itself included, and every ordering with NaN is
  false.
\<close>

fun num_of :: "pyval \<Rightarrow> pyfloat option" where
  "num_of (PBool b) = Some (Finite (if b then 1 else 0))"
| "num_of (PInt i) = Some (Finite (of_int i))"
| "num_of (PFloat x) = Some x"
| "num_of _ = None"


definition num_eq :: "pyfloat \<Rightarrow> pyfloat \<Rightarrow> bool" where
  "num_eq x y = (x \<noteq> NaN \<and> x = y)"

fun num_lt :: "pyfloat \<Rightarrow> pyfloat \<Rightarrow> bool" where
  "num_lt (Finite p) (Finite q) = (p < q)"
| "num_lt NegInf (Finite q) = True"
| "num_lt NegInf PosInf = True"
| "num_lt (Finite p) PosInf = True"
| "num_lt _ _ = False"

datatype ordop = LT | GT | LE | GE

fun num_ord :: "ordop \<Rightarrow> pyfloat \<Rightarrow> pyfloat \<Rightarrow> bool" where
  "num_ord LT x y = num_lt x y"
| "num_ord GT x y = num_lt y x"
| "num_ord LE x y = (num_lt x y \<or> num_eq x y)"
| "num_ord GE x y = (num_lt y x \<or> num_eq x y)"

text \<open>
  Python's \<^verbatim>\<open>==\<close> between a value of the state and a value of the graph. Lists are equal
  when they have the same length and equal items; dictionaries are equal when they have
  the same number of keys and equal values under each key. Values of different kinds are
  unequal. It never raises.
\<close>

definition eq_num :: "pyval \<Rightarrow> pyfloat \<Rightarrow> bool" where
  "eq_num v y = (case num_of v of Some x \<Rightarrow> num_eq x y | None \<Rightarrow> False)"

fun py_eq :: "heap \<Rightarrow> pyval \<Rightarrow> jval \<Rightarrow> bool"
  and py_eq_list :: "heap \<Rightarrow> pyval list \<Rightarrow> jval list \<Rightarrow> bool"
  and py_eq_items :: "heap \<Rightarrow> (string \<times> pyval) list \<Rightarrow> (string \<times> jval) list \<Rightarrow> bool"
where
  "py_eq h v JNone = (v = PNone)"
| "py_eq h v (JBool b) = eq_num v (Finite (if b then 1 else 0))"
| "py_eq h v (JInt i) = eq_num v (Finite (of_int i))"
| "py_eq h v (JFloat y) = eq_num v y"
| "py_eq h v (JStr s) = (v = PStr s)"
| "py_eq h v (JList js) =
     (case v of PListRef a \<Rightarrow> py_eq_list h (lists h a) js | _ \<Rightarrow> False)"
| "py_eq h v (JDict kjs) =
     (case v of
        PDictRef a \<Rightarrow> length (dicts h a) = length kjs \<and> py_eq_items h (dicts h a) kjs
      | _ \<Rightarrow> False)"
| "py_eq_list h [] [] = True"
| "py_eq_list h (v # vs) (j # js) = (py_eq h v j \<and> py_eq_list h vs js)"
| "py_eq_list h [] (j # js) = False"
| "py_eq_list h (v # vs) [] = False"
| "py_eq_items h d [] = True"
| "py_eq_items h d ((k, j) # kjs) =
     (case map_of d k of None \<Rightarrow> False | Some v \<Rightarrow> py_eq h v j \<and> py_eq_items h d kjs)"

text \<open>
  The ordering operators. Numbers compare with numbers, strings with strings (by code
  point, lexicographically) and lists with lists (at the first pair of unequal items, or by
  length when one is a prefix of the other). Every other pair raises \<^verbatim>\<open>TypeError\<close>.
\<close>

fun str_lt :: "string \<Rightarrow> string \<Rightarrow> bool" where
  "str_lt [] [] = False"
| "str_lt [] (y # ys) = True"
| "str_lt (x # xs) [] = False"
| "str_lt (x # xs) (y # ys) =
     (if (of_char x :: nat) < of_char y then True
      else if (of_char y :: nat) < of_char x then False
      else str_lt xs ys)"

fun str_ord :: "ordop \<Rightarrow> string \<Rightarrow> string \<Rightarrow> bool" where
  "str_ord LT s t = str_lt s t"
| "str_ord GT s t = str_lt t s"
| "str_ord LE s t = (\<not> str_lt t s)"
| "str_ord GE s t = (\<not> str_lt s t)"

fun len_ord :: "ordop \<Rightarrow> nat \<Rightarrow> nat \<Rightarrow> bool" where
  "len_ord LT m n = (m < n)"
| "len_ord GT m n = (m > n)"
| "len_ord LE m n = (m \<le> n)"
| "len_ord GE m n = (m \<ge> n)"

fun py_type :: "pyval \<Rightarrow> string" where
  "py_type PNone = ''NoneType''"
| "py_type (PBool _) = ''bool''"
| "py_type (PInt _) = ''int''"
| "py_type (PFloat _) = ''float''"
| "py_type (PStr _) = ''str''"
| "py_type (PListRef _) = ''list''"
| "py_type (PDictRef _) = ''dict''"

fun op_symbol :: "ordop \<Rightarrow> string" where
  "op_symbol LT = ''<''"
| "op_symbol GT = ''>''"
| "op_symbol LE = ''<=''"
| "op_symbol GE = ''>=''"

definition not_supported :: "ordop \<Rightarrow> string \<Rightarrow> string \<Rightarrow> exn" where
  "not_supported opr s t =
     TypeError ([CHR 0x27] @ op_symbol opr @ [CHR 0x27] @ '' not supported between instances of ''
                @ [CHR 0x27] @ s @ [CHR 0x27] @ '' and '' @ [CHR 0x27] @ t @ [CHR 0x27])"

definition ord_num :: "ordop \<Rightarrow> pyval \<Rightarrow> pyfloat \<Rightarrow> string \<Rightarrow> exn + bool" where
  "ord_num opr v y t =
     (case num_of v of
        Some x \<Rightarrow> Inr (num_ord opr x y)
      | None \<Rightarrow> Inl (not_supported opr (py_type v) t))"

fun py_ord :: "heap \<Rightarrow> ordop \<Rightarrow> pyval \<Rightarrow> jval \<Rightarrow> exn + bool"
  and py_ord_list :: "heap \<Rightarrow> ordop \<Rightarrow> pyval list \<Rightarrow> jval list \<Rightarrow> exn + bool"
where
  "py_ord h opr v JNone = Inl (not_supported opr (py_type v) ''NoneType'')"
| "py_ord h opr v (JBool b) = ord_num opr v (Finite (if b then 1 else 0)) ''bool''"
| "py_ord h opr v (JInt i) = ord_num opr v (Finite (of_int i)) ''int''"
| "py_ord h opr v (JFloat y) = ord_num opr v y ''float''"
| "py_ord h opr v (JStr t) =
     (case v of
        PStr s \<Rightarrow> Inr (str_ord opr s t)
      | _ \<Rightarrow> Inl (not_supported opr (py_type v) ''str''))"
| "py_ord h opr v (JList js) =
     (case v of
        PListRef a \<Rightarrow> py_ord_list h opr (lists h a) js
      | _ \<Rightarrow> Inl (not_supported opr (py_type v) ''list''))"
| "py_ord h opr v (JDict kjs) = Inl (not_supported opr (py_type v) ''dict'')"
| "py_ord_list h opr [] [] = Inr (len_ord opr 0 0)"
| "py_ord_list h opr [] (j # js) = Inr (len_ord opr 0 (Suc (length js)))"
| "py_ord_list h opr (v # vs) [] = Inr (len_ord opr (Suc (length vs)) 0)"
| "py_ord_list h opr (v # vs) (j # js) =
     (if py_eq h v j then py_ord_list h opr vs js else py_ord h opr v j)"

subsection \<open>Exceptions and their messages\<close>

text \<open>
  \<^verbatim>\<open>str(exc)\<close>. A \<^verbatim>\<open>KeyError\<close> prints the \<^verbatim>\<open>repr\<close> of its argument; the other
  exceptions print their message. \<^verbatim>\<open>repr\<close> of a string quotes it with \<^verbatim>\<open>'\<close>, or with
  \<^verbatim>\<open>"\<close> when the string holds a \<^verbatim>\<open>'\<close> and no \<^verbatim>\<open>"\<close>, and escapes the quote, the
  backslash and the characters that are not printable.
\<close>

definition hex_digit :: "nat \<Rightarrow> char" where
  "hex_digit n = ''0123456789abcdef'' ! (n mod 16)"

definition repr_char :: "char \<Rightarrow> char \<Rightarrow> string" where
  "repr_char q c =
     (let n = (of_char c :: nat) in
      if c = q \<or> c = CHR 0x5C then [CHR 0x5C, c]
      else if n = 9 then [CHR 0x5C, CHR ''t'']
      else if n = 10 then [CHR 0x5C, CHR ''n'']
      else if n = 13 then [CHR 0x5C, CHR ''r'']
      else if n < 32 \<or> n = 127 \<or> (128 \<le> n \<and> n \<le> 160) \<or> n = 173
        then [CHR 0x5C, CHR ''x'', hex_digit (n div 16), hex_digit n]
      else [c])"

definition py_repr :: "string \<Rightarrow> string" where
  "py_repr s =
     (let q = (if CHR 0x27 \<in> set s \<and> CHR 0x22 \<notin> set s then CHR 0x22 else CHR 0x27)
      in [q] @ concat (map (repr_char q) s) @ [q])"

fun str_exc :: "exn \<Rightarrow> string" where
  "str_exc (KeyError k) = py_repr k"
| "str_exc (TypeError m) = m"
| "str_exc (ValueError m) = m"
| "str_exc (AttributeError m) = m"
| "str_exc (ValidationError m) = m"
| "str_exc (ToolException m) = m"
| "str_exc (ToolBaseException m) = m"

text \<open>The \<^verbatim>\<open>AttributeError\<close> of a method call on a value whose type lacks the method.\<close>

definition no_attribute :: "string \<Rightarrow> string \<Rightarrow> exn" where
  "no_attribute t a =
     AttributeError ([CHR 0x27] @ t @ [CHR 0x27] @ '' object has no attribute ''
                     @ [CHR 0x27] @ a @ [CHR 0x27])"

section \<open>Tool registry\<close>

text \<open>
  A tool receives the state and returns a value, or raises. \<^verbatim>\<open>register\<close> accepts any
  callable, so the value returned need not be a dictionary. A tool may mutate the objects
  of the store in place, also before it raises, so it returns the store in both cases.
\<close>

type_synonym tool_func = "heap \<Rightarrow> pyval \<Rightarrow> (exn + pyval) \<times> heap"

type_synonym tool_registry = "string \<Rightarrow> tool_func option"

definition register :: "tool_registry \<Rightarrow> string \<Rightarrow> tool_func \<Rightarrow> tool_registry" where
  "register tools name func = tools(name \<mapsto> func)"

definition registry_get :: "tool_registry \<Rightarrow> string \<Rightarrow> exn + tool_func" where
  "registry_get tools name =
     (case tools name of
        None \<Rightarrow> Inl (KeyError (''Tool '' @ [CHR 0x27] @ name @ [CHR 0x27] @ '' is not registered''))
      | Some f \<Rightarrow> Inr f)"

section \<open>Graph models\<close>

record NodeDef =
  name :: string
  tool :: string

datatype operator = Eq | Ne | Lt | Gt | Lte | Gte

fun op_str :: "operator \<Rightarrow> string" where
  "op_str Eq = ''eq''"
| "op_str Ne = ''ne''"
| "op_str Lt = ''lt''"
| "op_str Gt = ''gt''"
| "op_str Lte = ''lte''"
| "op_str Gte = ''gte''"

record EdgeDef =
  from_node :: string
  to_node :: string
  condition_key :: "string option"
  operator :: operator
  cond_value :: jval

text \<open>The defaults of \<^verbatim>\<open>EdgeDef\<close>: no condition key, operator \<^verbatim>\<open>eq\<close>, value \<^verbatim>\<open>None\<close>.\<close>

definition new_EdgeDef ::
  "string \<Rightarrow> string \<Rightarrow> string option option \<Rightarrow> operator option \<Rightarrow> jval option \<Rightarrow> EdgeDef" where
  "new_EdgeDef f t ck opr v =
     \<lparr>from_node = f, to_node = t,
      condition_key = (case ck of None \<Rightarrow> None | Some k \<Rightarrow> k),
      operator = (case opr of None \<Rightarrow> Eq | Some p \<Rightarrow> p),
      cond_value = (case v of None \<Rightarrow> JNone | Some w \<Rightarrow> w)\<rparr>"

record GraphDef =
  graph_ident :: string
  nodes :: "string \<Rightarrow> NodeDef option"
  edges :: "EdgeDef list"
  start_node :: string

datatype RunStatus = PENDING | RUNNING | COMPLETED | FAILED

record RunLogEntry =
  node :: string
  state_snapshot :: addr

record Run =
  run_ident :: string
  graph_id :: string
  status :: RunStatus
  current_node :: "string option"
  state :: pyval
  log :: "RunLogEntry list"
  error :: "string option"

text \<open>The defaults of \<^verbatim>\<open>Run\<close>, with the state and the empty log that the endpoints pass.\<close>

definition new_Run :: "string \<Rightarrow> string \<Rightarrow> addr \<Rightarrow> Run" where
  "new_Run rid gid a =
     \<lparr>run_ident = rid, graph_id = gid, status = PENDING, current_node = None,
      state = PDictRef a, log = [], error = None\<rparr>"

section \<open>Engine logic\<close>

definition compare :: "heap \<Rightarrow> pyval \<Rightarrow> string \<Rightarrow> jval \<Rightarrow> exn + bool" where
  "compare h a opr b =
     (if opr = ''eq'' then Inr (py_eq h a b)
      else if opr = ''ne'' then Inr (\<not> py_eq h a b)
      else if opr = ''lt'' then py_ord h LT a b
      else if opr = ''gt'' then py_ord h GT a b
      else if opr = ''lte'' then py_ord h LE a b
      else if opr = ''gte'' then py_ord h GE a b
      else Inl (ValueError (''Unsupported operator: '' @ opr)))"

text \<open>The loop of \<^verbatim>\<open>_next_node_name\<close> over the candidate edges.\<close>

fun scan_candidates :: "heap \<Rightarrow> addr \<Rightarrow> EdgeDef list \<Rightarrow> exn + string option" where
  "scan_candidates h st [] = Inr None"
| "scan_candidates h st (edge # rest) =
     (case condition_key edge of
        None \<Rightarrow> Inr (Some (to_node edge))
      | Some k \<Rightarrow>
          (case compare h (dict_get h st k) (op_str (operator edge)) (cond_value edge) of
             Inl exc \<Rightarrow> Inl exc
           | Inr matched \<Rightarrow>
               if matched then Inr (Some (to_node edge)) else scan_candidates h st rest))"

definition next_node_name :: "GraphDef \<Rightarrow> string \<Rightarrow> heap \<Rightarrow> addr \<Rightarrow> exn + string option" where
  "next_node_name graph node_name h st =
     (let candidates = filter (\<lambda>e. from_node e = node_name) (edges graph)
      in scan_candidates h st candidates)"

text \<open>
  One pass through the body of the \<^verbatim>\<open>while\<close> loop of \<^verbatim>\<open>execute_graph\<close>. The result
  is the exception that left the body, or the next node name, with the store and the run
  as the body left them.

  The value that the tool returns is assigned to \<^verbatim>\<open>run.state\<close> whatever it is. Line 136,
  \<^verbatim>\<open>RunLogEntry(node=node_name, state_snapshot=run.state.copy())\<close>, then copies a
  dictionary and appends the entry. A list is copied too, and pydantic (version 2, which
  takes only a mapping for \<^verbatim>\<open>Dict[str, Any]\<close>) rejects the copy with a
  \<^verbatim>\<open>ValidationError\<close>; the text of that error is pydantic's and not part of the
  repository, so it is the parameter \<open>vtext\<close>. The other values have no method
  \<^verbatim>\<open>copy\<close>.
\<close>

definition loop_body ::
  "(heap \<Rightarrow> addr \<Rightarrow> string) \<Rightarrow> GraphDef \<Rightarrow> tool_registry \<Rightarrow> string \<Rightarrow> heap \<Rightarrow> Run
     \<Rightarrow> (exn + string option) \<times> heap \<times> Run" where
  "loop_body vtext graph tools node_name h run =
     (let run1 = run\<lparr>current_node := Some node_name\<rparr> in
      case nodes graph node_name of
        None \<Rightarrow> (Inl (KeyError node_name), h, run1)
      | Some nd \<Rightarrow>
          (case registry_get tools (tool nd) of
             Inl exc \<Rightarrow> (Inl exc, h, run1)
           | Inr f \<Rightarrow>
               (case f h (state run1) of
                  (Inl exc, h1) \<Rightarrow> (Inl exc, h1, run1)
                | (Inr v, h1) \<Rightarrow>
                    (let run2 = run1\<lparr>state := v\<rparr> in
                     case v of
                       PDictRef st \<Rightarrow>
                         (let (h2, c) = dict_copy h1 st;
                              run3 = run2\<lparr>log := log run2 @ [\<lparr>node = node_name, state_snapshot = c\<rparr>]\<rparr>
                          in (next_node_name graph node_name h2 st, h2, run3))
                     | PListRef l \<Rightarrow>
                         (let (h2, c) = list_copy h1 l
                          in (Inl (ValidationError (vtext h2 c)), h2, run2))
                     | _ \<Rightarrow> (Inl (no_attribute (py_type v) ''copy''), h1, run2)))))"

text \<open>
  The \<^verbatim>\<open>while\<close> loop. It has no iteration cap and may run forever, in which case the
  result is \<open>None\<close>; otherwise it is the exception that ended it, if any, with the store
  and the run.
\<close>

partial_function (option) while_loop ::
  "(heap \<Rightarrow> addr \<Rightarrow> string) \<Rightarrow> GraphDef \<Rightarrow> tool_registry \<Rightarrow> string option \<Rightarrow> heap \<Rightarrow> Run
     \<Rightarrow> (exn option \<times> heap \<times> Run) option" where
  "while_loop vtext graph tools node_name h run =
     (case node_name of
        None \<Rightarrow> Some (None, h, run)
      | Some n \<Rightarrow>
          (case loop_body vtext graph tools n h run of
             (Inl exc, h', run') \<Rightarrow> Some (Some exc, h', run')
           | (Inr nxt, h', run') \<Rightarrow> while_loop vtext graph tools nxt h' run'))"

text \<open>
  \<^verbatim>\<open>execute_graph\<close>. The handler is \<^verbatim>\<open>except Exception\<close>: an exception that is not an
  instance of \<^verbatim>\<open>Exception\<close> leaves the function, and the run as the loop left it. The
  result holds the exception that left the function, if any, the store and the run.
\<close>

definition execute_graph ::
  "(heap \<Rightarrow> addr \<Rightarrow> string) \<Rightarrow> GraphDef \<Rightarrow> tool_registry \<Rightarrow> heap \<Rightarrow> Run
     \<Rightarrow> (exn option \<times> heap \<times> Run) option" where
  "execute_graph vtext graph tools h run =
     (case while_loop vtext graph tools (Some (start_node graph)) h (run\<lparr>status := RUNNING\<rparr>) of
        None \<Rightarrow> None
      | Some (None, h', run') \<Rightarrow>
          Some (None, h', run'\<lparr>current_node := None, status := COMPLETED\<rparr>)
      | Some (Some exc, h', run') \<Rightarrow>
          if is_exception exc
          then Some (None, h', run'\<lparr>status := FAILED, error := Some (str_exc exc)\<rparr>)
          else Some (Some exc, h', run'))"

section \<open>Graph creation\<close>

record GraphCreateRequest =
  req_nodes :: "NodeDef list"
  req_edges :: "EdgeDef list"
  req_start_node :: string

datatype http_exception = HTTPException nat string

text \<open>The dictionary comprehension \<^verbatim>\<open>{n.name: n for n in req.nodes}\<close>.\<close>

definition nodes_dict :: "NodeDef list \<Rightarrow> string \<Rightarrow> NodeDef option" where
  "nodes_dict ns = foldl (\<lambda>m n. m(name n \<mapsto> n)) Map.empty ns"

text \<open>
  \<^verbatim>\<open>create_graph\<close>, with the identifier drawn by \<^verbatim>\<open>uuid4\<close> as an argument. It returns
  the response or the HTTP error, and the store \<^verbatim>\<open>GRAPHS\<close> as it leaves it.
\<close>

definition create_graph ::
  "string \<Rightarrow> (string \<Rightarrow> GraphDef option) \<Rightarrow> GraphCreateRequest
     \<Rightarrow> (http_exception + string) \<times> (string \<Rightarrow> GraphDef option)" where
  "create_graph gid GRAPHS req =
     (let nd = nodes_dict (req_nodes req) in
      if nd (req_start_node req) = None
      then (Inl (HTTPException 400 ''start_node must be one of the nodes''), GRAPHS)
      else
        (let graph = \<lparr>graph_ident = gid, nodes = nd, edges = req_edges req,
                      start_node = req_start_node req\<rparr>
         in (Inr gid, GRAPHS(gid \<mapsto> graph))))"

section \<open>Notions used to state the properties\<close>

text \<open>
  The configurations of the loop are the node name to visit next, the store and the run.
  \<open>visits vtext graph tools c ns c'\<close>: from \<open>c\<close>, passes of the loop body at the nodes
  \<open>ns\<close>, in this order and none of them raising, lead to \<open>c'\<close>.
\<close>

inductive visits ::
  "(heap \<Rightarrow> addr \<Rightarrow> string) \<Rightarrow> GraphDef \<Rightarrow> tool_registry \<Rightarrow> string option \<times> heap \<times> Run
     \<Rightarrow> string list \<Rightarrow> string option \<times> heap \<times> Run \<Rightarrow> bool"
  for vtext graph tools where
  here: "visits vtext graph tools c [] c"
| pass: "loop_body vtext graph tools n h run = (Inr nxt, h', run') \<Longrightarrow>
         visits vtext graph tools (nxt, h', run') ns c \<Longrightarrow>
         visits vtext graph tools (Some n, h, run) (n # ns) c"

code_pred (modes: i \<Rightarrow> i \<Rightarrow> i \<Rightarrow> i \<Rightarrow> i \<Rightarrow> o \<Rightarrow> bool) visits .

text \<open>
  The step of the loop body at which a pass raises, if it does: the lookup of the node
  (line 129), the resolution of its tool (line 130), the call of the tool (line 133), the
  snapshot and the log entry (line 136), or the evaluation of the edges (line 139).
\<close>

datatype failure_site = NodeLookup | ToolResolution | ToolInvocation | Logging | EdgeEvaluation

definition failure_site ::
  "GraphDef \<Rightarrow> tool_registry \<Rightarrow> string \<Rightarrow> heap \<Rightarrow> Run \<Rightarrow> failure_site option" where
  "failure_site graph tools n h run =
     (case nodes graph n of
        None \<Rightarrow> Some NodeLookup
      | Some nd \<Rightarrow>
          (case tools (tool nd) of
             None \<Rightarrow> Some ToolResolution
           | Some f \<Rightarrow>
               (case f h (state run) of
                  (Inl exc, h1) \<Rightarrow> Some ToolInvocation
                | (Inr v, h1) \<Rightarrow>
                    (case v of
                       PDictRef st \<Rightarrow>
                         (case next_node_name graph n (fst (dict_copy h1 st)) st of
                            Inl exc \<Rightarrow> Some EdgeEvaluation
                          | Inr nxt \<Rightarrow> None)
                     | _ \<Rightarrow> Some Logging))))"

text \<open>
  An edge matches a state when it has no condition key or its comparison returns true; it
  rejects the state when its comparison returns false. A comparison that raises does neither.
\<close>

definition edge_matches :: "heap \<Rightarrow> addr \<Rightarrow> EdgeDef \<Rightarrow> bool" where
  "edge_matches h st e =
     (case condition_key e of
        None \<Rightarrow> True
      | Some k \<Rightarrow> compare h (dict_get h st k) (op_str (operator e)) (cond_value e) = Inr True)"

definition edge_rejects :: "heap \<Rightarrow> addr \<Rightarrow> EdgeDef \<Rightarrow> bool" where
  "edge_rejects h st e =
     (case condition_key e of
        None \<Rightarrow> False
      | Some k \<Rightarrow> compare h (dict_get h st k) (op_str (operator e)) (cond_value e) = Inr False)"








section \<open>Example graphs, tools and stores\<close>

text \<open>A store that holds one dictionary, the state of a run, at address 0.\<close>

definition heap_with_state :: "(string \<times> pyval) list \<Rightarrow> heap" where
  "heap_with_state kvs =
     \<lparr>dicts = (\<lambda>_. [])(0 := kvs), lists = (\<lambda>_. []), next_dict = 1, next_list = 0\<rparr>"

text \<open>An example of the text of a validation error.\<close>

definition plain_vtext :: "heap \<Rightarrow> addr \<Rightarrow> string" where
  "plain_vtext h c = ''Input should be a valid dictionary''"

text \<open>The tool \<^verbatim>\<open>lambda state: state\<close>, and the registry that holds it under the name \<open>keep\<close>.\<close>

definition keep_state :: tool_func where
  "keep_state h v = (Inr v, h)"

definition keep_tools :: tool_registry where
  "keep_tools = register Map.empty ''keep'' keep_state"

text \<open>
  A graph that branches at node \<open>a\<close>: to \<open>r\<close> when \<open>x == 0\<close>, to \<open>b\<close> when \<open>x >= 1\<close>,
  and to \<open>c\<close> otherwise.
\<close>

definition branch_edges :: "EdgeDef list" where
  "branch_edges =
     [new_EdgeDef ''z'' ''q'' None None None,
      new_EdgeDef ''a'' ''r'' (Some (Some ''x'')) (Some Eq) (Some (JInt 0)),
      new_EdgeDef ''a'' ''b'' (Some (Some ''x'')) (Some Gte) (Some (JInt 1)),
      new_EdgeDef ''a'' ''c'' None None None]"

definition branch_graph :: GraphDef where
  "branch_graph =
     \<lparr>graph_ident = ''g1'',
      nodes = nodes_dict [\<lparr>name = ''a'', tool = ''keep''\<rparr>, \<lparr>name = ''b'', tool = ''keep''\<rparr>,
                          \<lparr>name = ''c'', tool = ''keep''\<rparr>],
      edges = branch_edges, start_node = ''a''\<rparr>"

text \<open>
  A graph whose only edge compares the absent key \<open>x\<close>, read as \<^verbatim>\<open>None\<close>, with the
  integer 1 under \<^verbatim>\<open>lt\<close>.
\<close>

definition ordering_graph :: GraphDef where
  "ordering_graph =
     \<lparr>graph_ident = ''g2'',
      nodes = nodes_dict [\<lparr>name = ''a'', tool = ''keep''\<rparr>],
      edges = [new_EdgeDef ''a'' ''a'' (Some (Some ''x'')) (Some Lt) (Some (JInt 1))],
      start_node = ''a''\<rparr>"



text \<open>
  Tools that fail: \<^verbatim>\<open>def boom(state): raise RuntimeError("boom")\<close>,
  \<^verbatim>\<open>def cancel(state): raise asyncio.CancelledError("stop")\<close> and
  \<^verbatim>\<open>lambda state: None\<close>, whose result is not a dictionary. The graph reaches the tool
  named \<open>second\<close> at its second node.
\<close>

definition raise_boom :: tool_func where
  "raise_boom h v = (Inl (ToolException ''boom''), h)"

definition raise_cancelled :: tool_func where
  "raise_cancelled h v = (Inl (ToolBaseException ''stop''), h)"

definition return_none :: tool_func where
  "return_none h v = (Inr PNone, h)"

definition second_tools :: "tool_func \<Rightarrow> tool_registry" where
  "second_tools f = register (register Map.empty ''keep'' keep_state) ''second'' f"

definition failing_graph :: GraphDef where
  "failing_graph =
     \<lparr>graph_ident = ''g3'',
      nodes = nodes_dict [\<lparr>name = ''a'', tool = ''keep''\<rparr>, \<lparr>name = ''b'', tool = ''second''\<rparr>],
      edges = [new_EdgeDef ''a'' ''b'' None None None],
      start_node = ''a''\<rparr>"

text \<open>
  State replacement: the tool \<^verbatim>\<open>lambda state: {"a": 1}\<close>, which returns a new
  dictionary, in a graph of one node.
\<close>

definition return_a1 :: tool_func where
  "return_a1 h v =
     (Inr (PDictRef (next_dict h)),
      h\<lparr>dicts := (dicts h)(next_dict h := [(''a'', PInt 1)]), next_dict := Suc (next_dict h)\<rparr>)"

definition replace_tools :: tool_registry where
  "replace_tools = register Map.empty ''set_a'' return_a1"

definition replace_graph :: GraphDef where
  "replace_graph =
     \<lparr>graph_ident = ''g4'',
      nodes = nodes_dict [\<lparr>name = ''start'', tool = ''set_a''\<rparr>],
      edges = [],
      start_node = ''start''\<rparr>"

text \<open>
  The end-to-end scenario: the tool
  \<^verbatim>\<open>
  def increment(state):
      c = state.get("count")
      if isinstance(c, int):
          state["count"] = c + 1
      return state
  \<close>
  and the graph of one node \<open>start\<close> with the edge from \<open>start\<close> to \<open>start\<close> taken
  while \<open>count < 3\<close>.
\<close>

definition increment_count :: tool_func where
  "increment_count h v =
     (case v of
        PDictRef a \<Rightarrow>
          (case dict_get h a ''count'' of
             PInt i \<Rightarrow> (Inr v, dict_setitem h a ''count'' (PInt (i + 1)))
           | PBool b \<Rightarrow> (Inr v, dict_setitem h a ''count'' (PInt ((if b then 1 else 0) + 1)))
           | _ \<Rightarrow> (Inr v, h))
      | _ \<Rightarrow> (Inl (no_attribute (py_type v) ''get''), h))"

definition count_tools :: tool_registry where
  "count_tools = register Map.empty ''increment'' increment_count"

definition count_graph :: GraphDef where
  "count_graph =
     \<lparr>graph_ident = ''g6'',
      nodes = nodes_dict [\<lparr>name = ''start'', tool = ''increment''\<rparr>],
      edges = [new_EdgeDef ''start'' ''start'' (Some (Some ''count'')) (Some Lt) (Some (JInt 3))],
      start_node = ''start''\<rparr>"

text \<open>
  Nested values: the tool
  \<^verbatim>\<open>
  def append(state):
      xs = state.get("items")
      if isinstance(xs, list):
          xs.append(1)
          state["n"] = len(xs)
      return state
  \<close>
  run at two nodes in a row, from the state \<^verbatim>\<open>{"items": [], "n": 0}\<close>.
\<close>

definition append_item :: tool_func where
  "append_item h v =
     (case v of
        PDictRef a \<Rightarrow>
          (case dict_get h a ''items'' of
             PListRef l \<Rightarrow>
               (let h1 = list_append h l (PInt 1)
                in (Inr v, dict_setitem h1 a ''n'' (PInt (int (length (lists h1 l))))))
           | _ \<Rightarrow> (Inr v, h))
      | _ \<Rightarrow> (Inl (no_attribute (py_type v) ''get''), h))"

definition append_tools :: tool_registry where
  "append_tools = register Map.empty ''append'' append_item"

definition append_graph :: GraphDef where
  "append_graph =
     \<lparr>graph_ident = ''g5'',
      nodes = nodes_dict [\<lparr>name = ''a'', tool = ''append''\<rparr>, \<lparr>name = ''b'', tool = ''append''\<rparr>],
      edges = [new_EdgeDef ''a'' ''b'' None None None],
      start_node = ''a''\<rparr>"

definition heap_with_items :: heap where
  "heap_with_items =
     \<lparr>dicts = (\<lambda>_. [])(0 := [(''items'', PListRef 0), (''n'', PInt 0)]), lists = (\<lambda>_. []),
      next_dict = 1, next_list = 1\<rparr>"

text \<open>
  Requests to \<^verbatim>\<open>create_graph\<close>: one with edges to and from names that are not nodes,
  and the graph it creates; one with two nodes of the same name.
\<close>

definition dangling_request :: GraphCreateRequest where
  "dangling_request =
     \<lparr>req_nodes = [\<lparr>name = ''a'', tool = ''keep''\<rparr>],
      req_edges = [new_EdgeDef ''a'' ''ghost'' None None None, new_EdgeDef ''nowhere'' ''a'' None None None],
      req_start_node = ''a''\<rparr>"

definition dangling_graph :: GraphDef where
  "dangling_graph =
     \<lparr>graph_ident = ''g8'', nodes = nodes_dict (req_nodes dangling_request),
      edges = req_edges dangling_request, start_node = ''a''\<rparr>"

definition duplicate_request :: GraphCreateRequest where
  "duplicate_request =
     \<lparr>req_nodes = [\<lparr>name = ''a'', tool = ''first''\<rparr>, \<lparr>name = ''b'', tool = ''keep''\<rparr>,
                   \<lparr>name = ''a'', tool = ''second''\<rparr>],
      req_edges = [],
      req_start_node = ''a''\<rparr>"

section \<open>Properties of the loop\<close>

lemma while_loop_None: "while_loop vt g t None h run = Some (None, h, run)"
  by (subst while_loop.simps) simp

lemma while_loop_raise:
  "loop_body vt g t n h run = (Inl exc, h', run') \<Longrightarrow>
   while_loop vt g t (Some n) h run = Some (Some exc, h', run')"
  by (subst while_loop.simps) simp

lemma while_loop_next:
  "loop_body vt g t n h run = (Inr nxt, h', run') \<Longrightarrow>
   while_loop vt g t (Some n) h run = while_loop vt g t nxt h' run'"
  by (subst while_loop.simps) simp

lemma while_loop_visits:
  "visits vt g t c ns c' \<Longrightarrow>
   while_loop vt g t (fst c) (fst (snd c)) (snd (snd c)) =
   while_loop vt g t (fst c') (fst (snd c')) (snd (snd c'))"
  by (induction rule: visits.induct) (simp_all add: while_loop_next)

lemmas loop_body_splits = option.splits sum.splits prod.splits pyval.splits

lemma loop_body_current_node:
  "loop_body vt g t n h run = (r, h', run') \<Longrightarrow> current_node run' = Some n"
  by (auto simp: loop_body_def registry_get_def Let_def dict_copy_def list_copy_def
      split: loop_body_splits)

lemma loop_body_status:
  "loop_body vt g t n h run = (r, h', run') \<Longrightarrow> status run' = status run \<and> error run' = error run"
  by (auto simp: loop_body_def registry_get_def Let_def dict_copy_def list_copy_def
      split: loop_body_splits)

lemma loop_body_site:
  "loop_body vt g t n h run = (r, h', run') \<Longrightarrow>
   (failure_site g t n h run = None) = (\<exists>nxt. r = Inr nxt)"
  by (auto simp: loop_body_def failure_site_def registry_get_def Let_def dict_copy_def list_copy_def
      split: loop_body_splits)

lemma loop_body_log:
  "loop_body vt g t n h run = (r, h', run') \<Longrightarrow>
   map node (log run') =
     map node (log run) @
       (if failure_site g t n h run = None \<or> failure_site g t n h run = Some EdgeEvaluation
        then [n] else [])"
  by (auto simp: loop_body_def failure_site_def registry_get_def Let_def dict_copy_def list_copy_def
      split: loop_body_splits)

lemma visits_log:
  "visits vt g t c ns c' \<Longrightarrow> map node (log (snd (snd c'))) = map node (log (snd (snd c))) @ ns"
proof (induction rule: visits.induct)
  case (here c)
  then show ?case by simp
next
  case (pass n h run nxt h' run' ns c)
  have "failure_site g t n h run = None"
    using loop_body_site [OF pass.hyps(1)] by simp
  then have "map node (log run') = map node (log run) @ [n]"
    using loop_body_log [OF pass.hyps(1)] by simp
  with pass.IH show ?case by simp
qed

lemma visits_status:
  "visits vt g t c ns c' \<Longrightarrow>
   status (snd (snd c')) = status (snd (snd c)) \<and> error (snd (snd c')) = error (snd (snd c))"
  by (induction rule: visits.induct) (auto dest: loop_body_status)

lemma execute_graph_completed:
  assumes "visits vt g t (Some (start_node g), h0, run0\<lparr>status := RUNNING\<rparr>) ns (Some n, h, run)"
    and "loop_body vt g t n h run = (Inr None, h', run')"
  shows "execute_graph vt g t h0 run0 =
           Some (None, h', run'\<lparr>current_node := None, status := COMPLETED\<rparr>)"
  using while_loop_visits [OF assms(1)] while_loop_next [OF assms(2)]
  by (simp add: execute_graph_def while_loop_None)

lemma execute_graph_failed:
  assumes "visits vt g t (Some (start_node g), h0, run0\<lparr>status := RUNNING\<rparr>) ns (Some n, h, run)"
    and "loop_body vt g t n h run = (Inl exc, h', run')"
    and "is_exception exc"
  shows "execute_graph vt g t h0 run0 =
           Some (None, h', run'\<lparr>status := FAILED, error := Some (str_exc exc)\<rparr>)"
  using while_loop_visits [OF assms(1)] while_loop_raise [OF assms(2)] assms(3)
  by (simp add: execute_graph_def)

text \<open>The engine itself raises instances of \<^verbatim>\<open>Exception\<close> only.\<close>

lemma py_ord_is_exception:
  "py_ord h opr v j = Inl exc \<Longrightarrow> is_exception exc"
  "py_ord_list h opr vs js = Inl exc \<Longrightarrow> is_exception exc"
  by (induction h opr v j and h opr vs js rule: py_ord_py_ord_list.induct)
    (auto simp: not_supported_def ord_num_def split: option.splits pyval.splits if_splits)

lemma compare_is_exception: "compare h a opr b = Inl exc \<Longrightarrow> is_exception exc"
  by (auto simp: compare_def split: if_splits dest: py_ord_is_exception)

lemma scan_candidates_is_exception: "scan_candidates h st es = Inl exc \<Longrightarrow> is_exception exc"
  by (induction es) (auto split: option.splits sum.splits if_splits dest: compare_is_exception)

lemma loop_body_escape_site:
  "loop_body vt g t n h run = (Inl exc, h', run') \<Longrightarrow> \<not> is_exception exc \<Longrightarrow>
   failure_site g t n h run = Some ToolInvocation"
  by (auto simp: loop_body_def failure_site_def registry_get_def Let_def dict_copy_def list_copy_def
      next_node_name_def no_attribute_def
      split: loop_body_splits dest: scan_candidates_is_exception)

section \<open>Edge selection\<close>

lemma scan_candidates_rejects:
  "\<forall>e' \<in> set pre. edge_rejects h st e' \<Longrightarrow>
   scan_candidates h st (pre @ rest) = scan_candidates h st rest"
  by (induction pre) (auto simp: edge_rejects_def split: option.splits)

lemma scan_candidates_matches:
  "edge_matches h st e \<Longrightarrow> scan_candidates h st (e # rest) = Inr (Some (to_node e))"
  by (auto simp: edge_matches_def split: option.splits)

lemmas eval_defs =
  new_EdgeDef_def edge_matches_def edge_rejects_def compare_def dict_get_def
  heap_with_state_def eq_num_def ord_num_def num_eq_def

lemmas run_defs =
  loop_body_def registry_get_def register_def keep_tools_def keep_state_def nodes_dict_def
  next_node_name_def dict_copy_def new_Run_def Let_def

text \<open>
  Claim C1. Edge selection is first-match-wins in declaration order: when an edge \<open>e\<close>
  from the node matches the state, and every edge from the same node declared before it
  rejects the state, \<^verbatim>\<open>_next_node_name\<close> returns the target of \<open>e\<close>, whatever the
  edges declared after it are. An edge without a condition key matches every state. So of
  two matching edges from one node the earlier one is selected.
\<close>

theorem first_match_wins:
  assumes "edges graph = earlier @ e # later"
    and "from_node e = node_name"
    and "\<forall>e' \<in> set earlier. from_node e' = node_name \<longrightarrow> edge_rejects h st e'"
    and "edge_matches h st e"
  shows "next_node_name graph node_name h st = Inr (Some (to_node e))"
proof -
  let ?P = "\<lambda>e. from_node e = node_name"
  have "filter ?P (edges graph) = filter ?P earlier @ e # filter ?P later"
    using assms(1,2) by simp
  moreover have "\<forall>e' \<in> set (filter ?P earlier). edge_rejects h st e'"
    using assms(3) by simp
  ultimately show ?thesis
    using assms(4)
    by (simp add: next_node_name_def scan_candidates_rejects scan_candidates_matches
        del: scan_candidates.simps)
qed

theorem first_match_wins_witness:
  "edge_matches (heap_with_state [(''x'', PInt 1)]) 0 (branch_edges ! 2) \<and>
   edge_matches (heap_with_state [(''x'', PInt 1)]) 0 (branch_edges ! 3) \<and>
   next_node_name branch_graph ''a'' (heap_with_state [(''x'', PInt 1)]) 0 = Inr (Some ''b'')"
  using first_match_wins [of branch_graph "take 2 branch_edges" "branch_edges ! 2"
      "drop 3 branch_edges" "''a''" "heap_with_state [(''x'', PInt 1)]" 0]
  by (simp add: branch_graph_def branch_edges_def eval_defs)

section \<open>Termination\<close>

lemma scan_candidates_all_reject:
  "\<forall>e \<in> set es. edge_rejects h st e \<Longrightarrow> scan_candidates h st es = Inr None"
  using scan_candidates_rejects [of es h st "[]"] by simp

lemma loop_body_no_match:
  assumes "nodes g n = Some nd" and "t (tool nd) = Some f"
    and "f h (state run) = (Inr (PDictRef a), h1)"
    and "\<forall>e \<in> set (edges g). from_node e = n \<longrightarrow> edge_rejects (fst (dict_copy h1 a)) a e"
  shows "loop_body vt g t n h run =
           (Inr None, fst (dict_copy h1 a),
            run\<lparr>current_node := Some n, state := PDictRef a,
                log := log run @ [\<lparr>node = n, state_snapshot = snd (dict_copy h1 a)\<rparr>]\<rparr>)"
proof -
  have "next_node_name g n (fst (dict_copy h1 a)) a = Inr None"
    using assms(4) by (simp add: next_node_name_def scan_candidates_all_reject)
  then show ?thesis
    using assms(1-3) by (simp add: loop_body_def registry_get_def Let_def split_beta)
qed

text \<open>
  Claim C2. Termination on no match: when a run reaches a node whose tool returns a state
  that every outgoing edge of the node rejects (in particular a node without outgoing
  edges), and nothing raises, \<^verbatim>\<open>execute_graph\<close> returns, and the run ends
  \<^verbatim>\<open>COMPLETED\<close> with \<^verbatim>\<open>current_node\<close> cleared, the state that the tool returned and
  one log entry for each node visited.
\<close>

theorem termination_on_no_match:
  assumes "visits vtext graph tools (Some (start_node graph), h0, run0\<lparr>status := RUNNING\<rparr>) ns
             (Some n, h, run)"
    and "nodes graph n = Some nd"
    and "tools (tool nd) = Some f"
    and "f h (state run) = (Inr (PDictRef a), h1)"
    and "\<forall>e \<in> set (edges graph). from_node e = n \<longrightarrow> edge_rejects (fst (dict_copy h1 a)) a e"
  shows "\<exists>h' run'. execute_graph vtext graph tools h0 run0 = Some (None, h', run') \<and>
           status run' = COMPLETED \<and> current_node run' = None \<and>
           state run' = PDictRef a \<and> map node (log run') = map node (log run0) @ ns @ [n]"
proof -
  let ?run' = "run\<lparr>current_node := Some n, state := PDictRef a,
                log := log run @ [\<lparr>node = n, state_snapshot = snd (dict_copy h1 a)\<rparr>]\<rparr>"
  have body: "loop_body vtext graph tools n h run = (Inr None, fst (dict_copy h1 a), ?run')"
    using assms(2-5) by (rule loop_body_no_match)
  have "execute_graph vtext graph tools h0 run0 =
          Some (None, fst (dict_copy h1 a), ?run'\<lparr>current_node := None, status := COMPLETED\<rparr>)"
    using assms(1) body by (rule execute_graph_completed)
  moreover have "map node (log run) = map node (log run0) @ ns"
    using visits_log [OF assms(1)] by simp
  ultimately show ?thesis by simp
qed

theorem termination_on_no_match_witness:
  "map_option (\<lambda>(exc, h', run'). (exc, status run', current_node run', map node (log run')))
     (execute_graph plain_vtext branch_graph keep_tools (heap_with_state [(''x'', PInt 1)])
        (new_Run ''r1'' ''g1'' 0))
   = Some (None, COMPLETED, None, [''a'', ''b''])"
proof -
  let ?h = "heap_with_state [(''x'', PInt 1)]"
  let ?run = "new_Run ''r1'' ''g1'' 0"
  let ?h1 = "fst (dict_copy ?h 0)"
  let ?run1 = "?run\<lparr>status := RUNNING, current_node := Some ''a'',
                 log := [\<lparr>node = ''a'', state_snapshot = 1\<rparr>]\<rparr>"
  have "loop_body plain_vtext branch_graph keep_tools ''a'' ?h (?run\<lparr>status := RUNNING\<rparr>) =
          (Inr (Some ''b''), ?h1, ?run1)"
    by (simp add: branch_graph_def branch_edges_def run_defs eval_defs)
  then have v: "visits plain_vtext branch_graph keep_tools
                  (Some (start_node branch_graph), ?h, ?run\<lparr>status := RUNNING\<rparr>)
                  [''a''] (Some ''b'', ?h1, ?run1)"
    by (simp add: branch_graph_def visits.pass visits.here)
  have n: "nodes branch_graph ''b'' = Some \<lparr>name = ''b'', tool = ''keep''\<rparr>"
    by (simp add: branch_graph_def nodes_dict_def)
  have t: "keep_tools (tool \<lparr>name = ''b'', tool = ''keep''\<rparr>) = Some keep_state"
    by (simp add: keep_tools_def register_def)
  have f: "keep_state ?h1 (state ?run1) = (Inr (PDictRef 0), ?h1)"
    by (simp add: keep_state_def new_Run_def)
  have e: "\<forall>e \<in> set (edges branch_graph). from_node e = ''b'' \<longrightarrow>
             edge_rejects (fst (dict_copy ?h1 0)) 0 e"
    by (simp add: branch_graph_def branch_edges_def new_EdgeDef_def)
  from termination_on_no_match [OF v n t f e] show ?thesis
    by (auto simp: new_Run_def)
qed

section \<open>Failures\<close>

text \<open>
  Claim C3, amended. Failure handling: when a pass of the loop body raises, at a node that
  the run has reached, the loop stops at once. If the exception is an instance of
  \<^verbatim>\<open>Exception\<close>, \<^verbatim>\<open>execute_graph\<close> returns with status \<^verbatim>\<open>FAILED\<close>, the message of the
  exception in \<^verbatim>\<open>error\<close> and the failing node still in \<^verbatim>\<open>current_node\<close>; the log holds
  one entry for each node visited before the failing one, followed by an entry for the
  failing node itself exactly when it is the evaluation of the edges that raised. An
  exception that is not an instance of \<^verbatim>\<open>Exception\<close> is raised by the tool, is not
  caught and leaves \<^verbatim>\<open>execute_graph\<close> with status \<^verbatim>\<open>RUNNING\<close> and no error message.
\<close>

theorem failure_handling:
  assumes "visits vtext graph tools (Some (start_node graph), h0, run0\<lparr>status := RUNNING\<rparr>) ns
             (Some n, h, run)"
    and "loop_body vtext graph tools n h run = (Inl exc, h', run')"
  shows "failure_site graph tools n h run \<noteq> None \<and>
         (is_exception exc \<longrightarrow>
            (\<exists>r. execute_graph vtext graph tools h0 run0 = Some (None, h', r) \<and>
                 status r = FAILED \<and> error r = Some (str_exc exc) \<and> current_node r = Some n \<and>
                 map node (log r) =
                   map node (log run0) @ ns @
                     (if failure_site graph tools n h run = Some EdgeEvaluation then [n] else []))) \<and>
         (\<not> is_exception exc \<longrightarrow>
            failure_site graph tools n h run = Some ToolInvocation \<and>
            (\<exists>r. execute_graph vtext graph tools h0 run0 = Some (Some exc, h', r) \<and>
                 status r = RUNNING \<and> error r = error run0 \<and> current_node r = Some n \<and>
                 map node (log r) = map node (log run0) @ ns))"
proof (intro conjI impI)
  have site: "failure_site graph tools n h run \<noteq> None"
    using loop_body_site [OF assms(2)] by simp
  then show "failure_site graph tools n h run \<noteq> None" .
  have before: "map node (log run) = map node (log run0) @ ns"
    using visits_log [OF assms(1)] by simp
  have cur: "current_node run' = Some n"
    using assms(2) by (rule loop_body_current_node)
  have lg: "map node (log run') =
      map node (log run) @ (if failure_site graph tools n h run = Some EdgeEvaluation then [n] else [])"
    using loop_body_log [OF assms(2)] site by simp
  {
    assume "is_exception exc"
    then have "execute_graph vtext graph tools h0 run0 =
          Some (None, h', run'\<lparr>status := FAILED, error := Some (str_exc exc)\<rparr>)"
      using while_loop_visits [OF assms(1)] while_loop_raise [OF assms(2)]
      by (simp add: execute_graph_def)
    with before cur lg
    show "\<exists>r. execute_graph vtext graph tools h0 run0 = Some (None, h', r) \<and>
                 status r = FAILED \<and> error r = Some (str_exc exc) \<and> current_node r = Some n \<and>
                 map node (log r) =
                   map node (log run0) @ ns @
                     (if failure_site graph tools n h run = Some EdgeEvaluation then [n] else [])"
      by simp
  }
  {
    assume esc: "\<not> is_exception exc"
    with assms(2) show ti: "failure_site graph tools n h run = Some ToolInvocation"
      by (rule loop_body_escape_site)
    have "execute_graph vtext graph tools h0 run0 = Some (Some exc, h', run')"
      using while_loop_visits [OF assms(1)] while_loop_raise [OF assms(2)] esc
      by (simp add: execute_graph_def)
    moreover have "status run' = RUNNING \<and> error run' = error run0"
      using visits_status [OF assms(1)] loop_body_status [OF assms(2)] by simp
    ultimately
    show "\<exists>r. execute_graph vtext graph tools h0 run0 = Some (Some exc, h', r) \<and>
                 status r = RUNNING \<and> error r = error run0 \<and> current_node r = Some n \<and>
                 map node (log r) = map node (log run0) @ ns"
      using before cur lg ti by simp
  }
qed

lemmas fail_defs =
  failing_graph_def second_tools_def raise_boom_def raise_cancelled_def return_none_def
  run_defs eval_defs

lemma failing_graph_first_pass:
  "visits plain_vtext failing_graph (second_tools f)
     (Some (start_node failing_graph), heap_with_state [], new_Run ''r3'' ''g3'' 0\<lparr>status := RUNNING\<rparr>)
     [''a'']
     (Some ''b'', fst (dict_copy (heap_with_state []) 0),
      new_Run ''r3'' ''g3'' 0\<lparr>status := RUNNING, current_node := Some ''a'',
        log := [\<lparr>node = ''a'', state_snapshot = 1\<rparr>]\<rparr>)"
proof -
  have "loop_body plain_vtext failing_graph (second_tools f) ''a'' (heap_with_state [])
          (new_Run ''r3'' ''g3'' 0\<lparr>status := RUNNING\<rparr>) =
          (Inr (Some ''b''), fst (dict_copy (heap_with_state []) 0),
           new_Run ''r3'' ''g3'' 0\<lparr>status := RUNNING, current_node := Some ''a'',
             log := [\<lparr>node = ''a'', state_snapshot = 1\<rparr>]\<rparr>)"
    by (simp add: fail_defs)
  then show ?thesis
    by (simp add: failing_graph_def visits.pass visits.here)
qed

lemma failing_graph_second_raises:
  "f h (state run) = (Inl exc, h1) \<Longrightarrow>
   loop_body plain_vtext failing_graph (second_tools f) ''b'' h run =
     (Inl exc, h1, run\<lparr>current_node := Some ''b''\<rparr>)"
  by (simp add: fail_defs)

lemma failing_graph_second_none:
  "f h (state run) = (Inr PNone, h1) \<Longrightarrow>
   loop_body plain_vtext failing_graph (second_tools f) ''b'' h run =
     (Inl (no_attribute ''NoneType'' ''copy''), h1, run\<lparr>current_node := Some ''b'', state := PNone\<rparr>)"
  by (simp add: fail_defs)

theorem failure_handling_witness:
  "map_option (\<lambda>(exc, h', r). (exc, status r, error r, current_node r, map node (log r)))
     (execute_graph plain_vtext failing_graph (second_tools raise_boom) (heap_with_state [])
        (new_Run ''r3'' ''g3'' 0))
   = Some (None, FAILED, Some ''boom'', Some ''b'', [''a'']) \<and>
   map_option (\<lambda>(exc, h', r). (exc, status r, error r, current_node r, state r, map node (log r)))
     (execute_graph plain_vtext failing_graph (second_tools return_none) (heap_with_state [])
        (new_Run ''r3'' ''g3'' 0))
   = Some (None, FAILED, Some (str_exc (no_attribute ''NoneType'' ''copy'')), Some ''b'', PNone, [''a'']) \<and>
   map_option (\<lambda>(exc, h', r). (exc, status r, error r, current_node r, map node (log r)))
     (execute_graph plain_vtext failing_graph (second_tools raise_cancelled) (heap_with_state [])
        (new_Run ''r3'' ''g3'' 0))
   = Some (Some (ToolBaseException ''stop''), RUNNING, None, Some ''b'', [''a''])"
proof -
  let ?h1 = "fst (dict_copy (heap_with_state []) 0)"
  let ?run1 = "new_Run ''r3'' ''g3'' 0\<lparr>status := RUNNING, current_node := Some ''a'',
                 log := [\<lparr>node = ''a'', state_snapshot = 1\<rparr>]\<rparr>"
  have b1: "loop_body plain_vtext failing_graph (second_tools raise_boom) ''b'' ?h1 ?run1 =
             (Inl (ToolException ''boom''), ?h1, ?run1\<lparr>current_node := Some ''b''\<rparr>)"
    by (rule failing_graph_second_raises) (simp add: raise_boom_def)
  have s1: "failure_site failing_graph (second_tools raise_boom) ''b'' ?h1 ?run1 = Some ToolInvocation"
    by (simp add: failure_site_def fail_defs)
  have b2: "loop_body plain_vtext failing_graph (second_tools return_none) ''b'' ?h1 ?run1 =
             (Inl (no_attribute ''NoneType'' ''copy''), ?h1,
              ?run1\<lparr>current_node := Some ''b'', state := PNone\<rparr>)"
    by (rule failing_graph_second_none) (simp add: return_none_def)
  have s2: "failure_site failing_graph (second_tools return_none) ''b'' ?h1 ?run1 = Some Logging"
    by (simp add: failure_site_def fail_defs)
  have b3: "loop_body plain_vtext failing_graph (second_tools raise_cancelled) ''b'' ?h1 ?run1 =
             (Inl (ToolBaseException ''stop''), ?h1, ?run1\<lparr>current_node := Some ''b''\<rparr>)"
    by (rule failing_graph_second_raises) (simp add: raise_cancelled_def)
  have e: "is_exception (ToolException ''boom'')" "is_exception (no_attribute ''NoneType'' ''copy'')"
    "\<not> is_exception (ToolBaseException ''stop'')"
    by (simp_all add: no_attribute_def)
  from failure_handling [OF failing_graph_first_pass b1] e(1) s1
  have c1: "map_option (\<lambda>(exc, h', r). (exc, status r, error r, current_node r, map node (log r)))
     (execute_graph plain_vtext failing_graph (second_tools raise_boom) (heap_with_state [])
        (new_Run ''r3'' ''g3'' 0))
   = Some (None, FAILED, Some ''boom'', Some ''b'', [''a''])"
    by (auto simp: new_Run_def)
  from failure_handling [OF failing_graph_first_pass b2] e(2) s2
  have "\<exists>r. execute_graph plain_vtext failing_graph (second_tools return_none) (heap_with_state [])
               (new_Run ''r3'' ''g3'' 0) = Some (None, ?h1, r) \<and>
             status r = FAILED \<and> error r = Some (str_exc (no_attribute ''NoneType'' ''copy'')) \<and>
             current_node r = Some ''b'' \<and> map node (log r) = [''a'']"
    by (auto simp: new_Run_def)
  moreover have "execute_graph plain_vtext failing_graph (second_tools return_none) (heap_with_state [])
               (new_Run ''r3'' ''g3'' 0) = Some (None, ?h1, r) \<Longrightarrow> state r = PNone" for r
    using execute_graph_failed [OF failing_graph_first_pass b2 e(2)] by auto
  ultimately
  have c2: "map_option (\<lambda>(exc, h', r). (exc, status r, error r, current_node r, state r, map node (log r)))
     (execute_graph plain_vtext failing_graph (second_tools return_none) (heap_with_state [])
        (new_Run ''r3'' ''g3'' 0))
   = Some (None, FAILED, Some (str_exc (no_attribute ''NoneType'' ''copy'')), Some ''b'', PNone, [''a''])"
    by auto
  from failure_handling [OF failing_graph_first_pass b3] e(3)
  have c3: "map_option (\<lambda>(exc, h', r). (exc, status r, error r, current_node r, map node (log r)))
     (execute_graph plain_vtext failing_graph (second_tools raise_cancelled) (heap_with_state [])
        (new_Run ''r3'' ''g3'' 0))
   = Some (Some (ToolBaseException ''stop''), RUNNING, None, Some ''b'', [''a''])"
    by (auto simp: new_Run_def)
  have evaluated:
    "map_option (\<lambda>(exc, h', r). (exc, status r, error r, current_node r, map node (log r)))
       (execute_graph plain_vtext failing_graph (second_tools raise_boom) (heap_with_state [])
          (new_Run ''r3'' ''g3'' 0))
     = Some (None, FAILED, Some ''boom'', Some ''b'', [''a''])"
    "map_option (\<lambda>(exc, h', r). (exc, status r, error r, current_node r, state r, map node (log r)))
       (execute_graph plain_vtext failing_graph (second_tools return_none) (heap_with_state [])
          (new_Run ''r3'' ''g3'' 0))
     = Some (None, FAILED, Some (str_exc (no_attribute ''NoneType'' ''copy'')), Some ''b'', PNone, [''a''])"
    "map_option (\<lambda>(exc, h', r). (exc, status r, error r, current_node r, map node (log r)))
       (execute_graph plain_vtext failing_graph (second_tools raise_cancelled) (heap_with_state [])
          (new_Run ''r3'' ''g3'' 0))
     = Some (Some (ToolBaseException ''stop''), RUNNING, None, Some ''b'', [''a''])"
    unfolding execute_graph_def
    by ((subst while_loop.simps, simp add: fail_defs no_attribute_def)+)
  from c1 c2 c3 evaluated show ?thesis by blast
qed

text \<open>
  As stated, claim C3 lets the log hold only the entries of the nodes before the failing
  one, and makes every failure end the run \<^verbatim>\<open>FAILED\<close>. In \<open>ordering_graph\<close> the first
  node visited fails, in the evaluation of its edge, and the log holds its entry. In
  \<open>failing_graph\<close> the tool of the second node raises \<^verbatim>\<open>asyncio.CancelledError\<close>, which
  \<^verbatim>\<open>except Exception\<close> does not catch: the exception leaves \<^verbatim>\<open>execute_graph\<close> and the
  status stays \<^verbatim>\<open>RUNNING\<close>.
\<close>

theorem failure_handling_counterexample:
  "fst (loop_body plain_vtext ordering_graph keep_tools ''a'' (heap_with_state [])
          (new_Run ''r2'' ''g2'' 0\<lparr>status := RUNNING\<rparr>))
     = Inl (not_supported LT ''NoneType'' ''int'') \<and>
   map_option (\<lambda>(exc, h', r). (exc, status r, current_node r, map node (log r)))
     (execute_graph plain_vtext ordering_graph keep_tools (heap_with_state []) (new_Run ''r2'' ''g2'' 0))
     = Some (None, FAILED, Some ''a'', [''a'']) \<and>
   map_option (\<lambda>(exc, h', r). (exc, status r, error r))
     (execute_graph plain_vtext failing_graph (second_tools raise_cancelled) (heap_with_state [])
        (new_Run ''r3'' ''g3'' 0))
     = Some (Some (ToolBaseException ''stop''), RUNNING, None)"
  unfolding execute_graph_def
  apply (intro conjI)
    apply (simp add: ordering_graph_def run_defs eval_defs)
   apply (subst while_loop.simps, simp add: ordering_graph_def not_supported_def run_defs eval_defs)
  apply (subst while_loop.simps, simp add: fail_defs)
  apply (subst while_loop.simps, simp add: fail_defs)
  done

section \<open>State and log\<close>

text \<open>
  Claim C4. State replacement semantics: at every node visit the value that the tool
  returns becomes \<^verbatim>\<open>run.state\<close> as it is; when it is a dictionary, its bindings are
  those that the tool left, and nothing of the prior state is merged into it.
\<close>

theorem state_replacement:
  assumes "nodes graph n = Some nd"
    and "tools (tool nd) = Some f"
    and "f h (state run) = (Inr v, h1)"
    and "loop_body vtext graph tools n h run = (r, h2, run')"
  shows "state run' = v \<and> (\<forall>a. v = PDictRef a \<longrightarrow> dicts h2 a = dicts h1 a)"
  using assms
  by (auto simp: loop_body_def registry_get_def dict_copy_def list_copy_def Let_def
      split: pyval.splits)

text \<open>
  The example of the claim: from the prior state \<^verbatim>\<open>{"a": 0, "b": 2}\<close> a tool that
  returns \<^verbatim>\<open>{"a": 1}\<close> leaves \<^verbatim>\<open>run.state == {"a": 1}\<close>, without the key \<open>b\<close>.
\<close>

theorem state_replacement_witness:
  "dicts (heap_with_state [(''a'', PInt 0), (''b'', PInt 2)]) 0 = [(''a'', PInt 0), (''b'', PInt 2)] \<and>
   (case loop_body plain_vtext replace_graph replace_tools ''start''
           (heap_with_state [(''a'', PInt 0), (''b'', PInt 2)]) (new_Run ''r4'' ''g4'' 0) of
      (r, h2, run') \<Rightarrow>
        state run' = PDictRef 1 \<and> dicts h2 1 = [(''a'', PInt 1)] \<and> dict_get h2 1 ''b'' = PNone)"
proof -
  let ?h = "heap_with_state [(''a'', PInt 0), (''b'', PInt 2)]"
  let ?run = "new_Run ''r4'' ''g4'' 0"
  obtain r h2 run' where
    b: "loop_body plain_vtext replace_graph replace_tools ''start'' ?h ?run = (r, h2, run')"
    by (metis prod_cases3)
  have n: "nodes replace_graph ''start'' = Some \<lparr>name = ''start'', tool = ''set_a''\<rparr>"
    by (simp add: replace_graph_def nodes_dict_def)
  have t: "replace_tools (tool \<lparr>name = ''start'', tool = ''set_a''\<rparr>) = Some return_a1"
    by (simp add: replace_tools_def register_def)
  have f: "return_a1 ?h (state ?run) =
             (Inr (PDictRef 1), ?h\<lparr>dicts := (dicts ?h)(1 := [(''a'', PInt 1)]), next_dict := 2\<rparr>)"
    by (simp add: return_a1_def heap_with_state_def new_Run_def)
  have "dicts ?h 0 = [(''a'', PInt 0), (''b'', PInt 2)]"
    by (simp add: heap_with_state_def)
  with state_replacement [OF n t f b] b show ?thesis
    by (auto simp: dict_get_def)
qed

lemmas append_defs =
  append_graph_def append_tools_def append_item_def list_append_def dict_setitem_def
  heap_with_items_def run_defs eval_defs

text \<open>
  Claim C5 fails on the code. The snapshot of line 136 is \<^verbatim>\<open>run.state.copy()\<close>, a shallow
  copy, so the entry recorded for a node changes when a later tool mutates a value nested
  in the state. In \<open>append_graph\<close>, run from \<^verbatim>\<open>{"items": [], "n": 0}\<close>, the entry for
  node \<open>a\<close> equals \<^verbatim>\<open>{"items": [1], "n": 1}\<close> when it is recorded. At the end of the run
  it is the same dictionary object, distinct from the state and from the snapshot of node
  \<open>b\<close>, and its key \<open>n\<close> is still 1, but it equals \<^verbatim>\<open>{"items": [1, 1], "n": 1}\<close>: the
  tool of node \<open>b\<close> has appended to the list that the state and the snapshot share.
\<close>

theorem snapshot_changed_by_nested_mutation:
  "(case loop_body plain_vtext append_graph append_tools ''a'' heap_with_items
           (new_Run ''r5'' ''g5'' 0\<lparr>status := RUNNING\<rparr>) of
      (nxt, h1, run1) \<Rightarrow>
        (case execute_graph plain_vtext append_graph append_tools heap_with_items
                (new_Run ''r5'' ''g5'' 0) of
           None \<Rightarrow> False
         | Some (exc, h2, run2) \<Rightarrow>
             exc = None \<and> status run2 = COMPLETED \<and>
             log run1 = [\<lparr>node = ''a'', state_snapshot = 1\<rparr>] \<and>
             log run2 = [\<lparr>node = ''a'', state_snapshot = 1\<rparr>, \<lparr>node = ''b'', state_snapshot = 2\<rparr>] \<and>
             state run2 = PDictRef 0 \<and>
             py_eq h1 (PDictRef 1) (JDict [(''items'', JList [JInt 1]), (''n'', JInt 1)]) \<and>
             \<not> py_eq h2 (PDictRef 1) (JDict [(''items'', JList [JInt 1]), (''n'', JInt 1)]) \<and>
             py_eq h2 (PDictRef 1) (JDict [(''items'', JList [JInt 1, JInt 1]), (''n'', JInt 1)]) \<and>
             py_eq h2 (PDictRef 2) (JDict [(''items'', JList [JInt 1, JInt 1]), (''n'', JInt 2)]) \<and>
             py_eq h2 (PDictRef 0) (JDict [(''items'', JList [JInt 1, JInt 1]), (''n'', JInt 2)])))"
  unfolding execute_graph_def
  apply (subst while_loop.simps, simp add: append_defs)
  apply (subst while_loop.simps, simp add: append_defs)
  apply (subst while_loop.simps, simp add: append_defs)
  done

section \<open>End-to-end scenario\<close>

lemmas count_defs =
  count_graph_def count_tools_def increment_count_def dict_setitem_def run_defs eval_defs

text \<open>
  Claim C6. The graph with the single node \<open>start\<close>, whose tool increments \<open>count\<close>,
  and the edge from \<open>start\<close> to \<open>start\<close> under \<open>count < 3\<close>, run from the state
  \<^verbatim>\<open>{"count": 0}\<close>, terminates with status \<^verbatim>\<open>COMPLETED\<close>, three log entries, all
  for \<open>start\<close>, and the final state \<^verbatim>\<open>{"count": 3}\<close>.
\<close>

theorem count_to_three:
  "map_option (\<lambda>(exc, h', r). (exc, status r, current_node r, error r, map node (log r),
                          state r, dicts h' 0,
                          map (\<lambda>e. dicts h' (state_snapshot e)) (log r)))
     (execute_graph plain_vtext count_graph count_tools (heap_with_state [(''count'', PInt 0)])
        (new_Run ''r6'' ''g6'' 0))
   = Some (None, COMPLETED, None, None, [''start'', ''start'', ''start''],
           PDictRef 0, [(''count'', PInt 3)],
           [[(''count'', PInt 1)], [(''count'', PInt 2)], [(''count'', PInt 3)]])"
  unfolding execute_graph_def
  apply (subst while_loop.simps, simp add: count_defs)
  apply (subst while_loop.simps, simp add: count_defs)
  apply (subst while_loop.simps, simp add: count_defs)
  apply (subst while_loop.simps, simp add: count_defs)
  done

section \<open>Comparison\<close>

subsection \<open>Equality\<close>






subsection \<open>Ordering of numbers and strings\<close>




subsection \<open>Ordering of lists\<close>



subsection \<open>Values that do not compare\<close>
















section \<open>Graph creation\<close>

lemma nodes_dict_snoc: "nodes_dict (ns @ [n]) = (nodes_dict ns)(name n \<mapsto> n)"
  by (simp add: nodes_dict_def)

lemma nodes_dict_Nil: "nodes_dict [] = Map.empty"
  by (simp add: nodes_dict_def)

lemma nodes_dict_last:
  "nodes_dict ns k =
     (if k \<in> name ` set ns then Some (last (filter (\<lambda>n. name n = k) ns)) else None)"
  by (induction ns rule: rev_induct) (auto simp: nodes_dict_snoc nodes_dict_Nil)

lemma loop_body_unknown_node:
  "nodes g n = None \<Longrightarrow>
   loop_body vt g t n h run = (Inl (KeyError n), h, run\<lparr>current_node := Some n\<rparr>)"
  by (simp add: loop_body_def)

lemma execute_graph_unknown_node:
  assumes "visits vtext graph tools (Some (start_node graph), h0, run0\<lparr>status := RUNNING\<rparr>) ns
             (Some n, h, run)"
    and "nodes graph n = None"
  shows "execute_graph vtext graph tools h0 run0 =
           Some (None, h, run\<lparr>current_node := Some n, status := FAILED,
                             error := Some (str_exc (KeyError n))\<rparr>)"
  using execute_graph_failed [OF assms(1) loop_body_unknown_node [OF assms(2)]] by simp

text \<open>
  Claim C8. Graph creation validation: \<^verbatim>\<open>create_graph\<close> fails, with status 400,
  exactly when the start node is not among the names of the nodes supplied, and then leaves
  \<^verbatim>\<open>GRAPHS\<close> as it is. Otherwise it stores the graph with the edges as supplied, whatever
  names they refer to. A run that reaches a name that is not a node of the graph ends
  \<^verbatim>\<open>FAILED\<close> with the \<^verbatim>\<open>KeyError\<close> of that name.
\<close>

theorem graph_creation_validation:
  "(fst (create_graph gid GRAPHS req) = Inl (HTTPException 400 ''start_node must be one of the nodes'')
      \<longleftrightarrow> req_start_node req \<notin> name ` set (req_nodes req)) \<and>
   (req_start_node req \<notin> name ` set (req_nodes req) \<longrightarrow> snd (create_graph gid GRAPHS req) = GRAPHS) \<and>
   (req_start_node req \<in> name ` set (req_nodes req) \<longrightarrow>
      create_graph gid GRAPHS req =
        (Inr gid, GRAPHS(gid \<mapsto> \<lparr>graph_ident = gid, nodes = nodes_dict (req_nodes req),
                                  edges = req_edges req, start_node = req_start_node req\<rparr>))) \<and>
   (\<forall>vtext graph tools h0 run0 ns n h run.
      visits vtext graph tools (Some (start_node graph), h0, run0\<lparr>status := RUNNING\<rparr>) ns
        (Some n, h, run) \<and>
      nodes graph n = None \<longrightarrow>
      execute_graph vtext graph tools h0 run0 =
        Some (None, h, run\<lparr>current_node := Some n, status := FAILED,
                          error := Some (str_exc (KeyError n))\<rparr>))"
proof (intro conjI)
  show "fst (create_graph gid GRAPHS req) = Inl (HTTPException 400 ''start_node must be one of the nodes'')
      \<longleftrightarrow> req_start_node req \<notin> name ` set (req_nodes req)"
    by (simp add: create_graph_def nodes_dict_last Let_def)
  show "req_start_node req \<notin> name ` set (req_nodes req) \<longrightarrow> snd (create_graph gid GRAPHS req) = GRAPHS"
    by (simp add: create_graph_def nodes_dict_last Let_def)
  show "req_start_node req \<in> name ` set (req_nodes req) \<longrightarrow>
      create_graph gid GRAPHS req =
        (Inr gid, GRAPHS(gid \<mapsto> \<lparr>graph_ident = gid, nodes = nodes_dict (req_nodes req),
                                  edges = req_edges req, start_node = req_start_node req\<rparr>))"
    by (simp add: create_graph_def nodes_dict_last Let_def)
  show "\<forall>vtext graph tools h0 run0 ns n h run.
      visits vtext graph tools (Some (start_node graph), h0, run0\<lparr>status := RUNNING\<rparr>) ns
        (Some n, h, run) \<and>
      nodes graph n = None \<longrightarrow>
      execute_graph vtext graph tools h0 run0 =
        Some (None, h, run\<lparr>current_node := Some n, status := FAILED,
                          error := Some (str_exc (KeyError n))\<rparr>)"
    using execute_graph_unknown_node by blast
qed

theorem graph_creation_validation_witness:
  "create_graph ''g8'' Map.empty dangling_request = (Inr ''g8'', [''g8'' \<mapsto> dangling_graph]) \<and>
   create_graph ''g9'' Map.empty (dangling_request\<lparr>req_start_node := ''ghost''\<rparr>) =
     (Inl (HTTPException 400 ''start_node must be one of the nodes''), Map.empty) \<and>
   map_option (\<lambda>(exc, h', r). (exc, status r, error r, current_node r, map node (log r)))
     (execute_graph plain_vtext dangling_graph keep_tools (heap_with_state []) (new_Run ''r8'' ''g8'' 0))
   = Some (None, FAILED,
           Some [CHR 0x27, CHR ''g'', CHR ''h'', CHR ''o'', CHR ''s'', CHR ''t'', CHR 0x27],
           Some ''ghost'', [''a''])"
proof -
  let ?h = "heap_with_state []"
  let ?run = "new_Run ''r8'' ''g8'' 0"
  let ?h1 = "fst (dict_copy ?h 0)"
  let ?run1 = "?run\<lparr>status := RUNNING, current_node := Some ''a'',
                 log := [\<lparr>node = ''a'', state_snapshot = 1\<rparr>]\<rparr>"
  note p1 = graph_creation_validation [THEN conjunct1]
  note p2 = graph_creation_validation [THEN conjunct2, THEN conjunct1, rule_format]
  note p3 = graph_creation_validation [THEN conjunct2, THEN conjunct2, THEN conjunct1, rule_format]
  note p4 = graph_creation_validation [THEN conjunct2, THEN conjunct2, THEN conjunct2, rule_format]
  have s: "req_start_node dangling_request \<in> name ` set (req_nodes dangling_request)"
    by (simp add: dangling_request_def)
  have c1: "create_graph ''g8'' Map.empty dangling_request = (Inr ''g8'', [''g8'' \<mapsto> dangling_graph])"
    using p3 [OF s, of "''g8''" Map.empty] by (simp add: dangling_graph_def dangling_request_def)
  have s': "req_start_node (dangling_request\<lparr>req_start_node := ''ghost''\<rparr>)
              \<notin> name ` set (req_nodes (dangling_request\<lparr>req_start_node := ''ghost''\<rparr>))"
    by (simp add: dangling_request_def)
  have c2: "create_graph ''g9'' Map.empty (dangling_request\<lparr>req_start_node := ''ghost''\<rparr>) =
     (Inl (HTTPException 400 ''start_node must be one of the nodes''), Map.empty)"
    using p1 [of "''g9''" Map.empty "dangling_request\<lparr>req_start_node := ''ghost''\<rparr>"]
      p2 [OF s', of "''g9''" Map.empty] s'
    by (simp add: prod_eq_iff)
  have "loop_body plain_vtext dangling_graph keep_tools ''a'' ?h (?run\<lparr>status := RUNNING\<rparr>) =
          (Inr (Some ''ghost''), ?h1, ?run1)"
    by (simp add: dangling_graph_def dangling_request_def run_defs eval_defs)
  then have v: "visits plain_vtext dangling_graph keep_tools
                  (Some (start_node dangling_graph), ?h, ?run\<lparr>status := RUNNING\<rparr>)
                  [''a''] (Some ''ghost'', ?h1, ?run1)"
    by (simp add: dangling_graph_def visits.pass visits.here)
  have n: "nodes dangling_graph ''ghost'' = None"
    by (simp add: dangling_graph_def dangling_request_def nodes_dict_def)
  have "execute_graph plain_vtext dangling_graph keep_tools ?h ?run =
          Some (None, ?h1, ?run1\<lparr>current_node := Some ''ghost'', status := FAILED,
                         error := Some (str_exc (KeyError ''ghost''))\<rparr>)"
    using v n by (intro p4 conjI)
  then have c3: "map_option (\<lambda>(exc, h', r). (exc, status r, error r, current_node r, map node (log r)))
     (execute_graph plain_vtext dangling_graph keep_tools ?h ?run)
   = Some (None, FAILED,
           Some [CHR 0x27, CHR ''g'', CHR ''h'', CHR ''o'', CHR ''s'', CHR ''t'', CHR 0x27],
           Some ''ghost'', [''a''])"
    by (simp add: new_Run_def py_repr_def repr_char_def Let_def)
  from c1 c2 c3 show ?thesis by blast
qed

text \<open>
  Claim C9. Duplicate node names are collapsed: a request whose start node is among the
  names supplied is created without error, also when several nodes share a name, and the
  node index of the graph binds each name to the last node of that name in the request.
\<close>

theorem duplicate_node_names_collapse:
  assumes "req_start_node req \<in> name ` set (req_nodes req)"
  shows "\<exists>graph. create_graph gid GRAPHS req = (Inr gid, GRAPHS(gid \<mapsto> graph)) \<and>
           (\<forall>k. nodes graph k =
              (if k \<in> name ` set (req_nodes req)
               then Some (last (filter (\<lambda>n. name n = k) (req_nodes req))) else None))"
  using assms
  by (auto simp: create_graph_def Let_def nodes_dict_last)

theorem duplicate_node_names_collapse_witness:
  "\<exists>graph. create_graph ''g9'' Map.empty duplicate_request = (Inr ''g9'', [''g9'' \<mapsto> graph]) \<and>
      nodes graph ''a'' = Some \<lparr>name = ''a'', tool = ''second''\<rparr> \<and>
      nodes graph ''b'' = Some \<lparr>name = ''b'', tool = ''keep''\<rparr> \<and>
      nodes graph ''c'' = None"
proof -
  have s: "req_start_node duplicate_request \<in> name ` set (req_nodes duplicate_request)"
    by (simp add: duplicate_request_def)
  from duplicate_node_names_collapse [OF s, of "''g9''" Map.empty]
  obtain graph where g: "create_graph ''g9'' Map.empty duplicate_request = (Inr ''g9'', [''g9'' \<mapsto> graph])"
    and k: "\<And>k. nodes graph k =
              (if k \<in> name ` set (req_nodes duplicate_request)
               then Some (last (filter (\<lambda>n. name n = k) (req_nodes duplicate_request))) else None)"
    by blast
  have "nodes graph ''a'' = Some \<lparr>name = ''a'', tool = ''second''\<rparr>"
    "nodes graph ''b'' = Some \<lparr>name = ''b'', tool = ''keep''\<rparr>"
    "nodes graph ''c'' = None"
    by (simp_all add: k duplicate_request_def)
  with g show ?thesis by blast
qed

text \<open>
  Claim C10. An absent condition key matches a defaulted condition: an edge with a
  condition key that the state does not hold, the default operator \<^verbatim>\<open>eq\<close> and the
  default value \<^verbatim>\<open>None\<close> matches, and edge selection treats it as it treats the same
  edge without a condition key.
\<close>

theorem absent_key_matches_default_condition:
  assumes "k \<notin> fst ` set (dicts h st)"
    and "condition_key e = Some k"
    and "operator e = Eq"
    and "cond_value e = JNone"
  shows "edge_matches h st e \<and>
         scan_candidates h st (e # rest) = Inr (Some (to_node e)) \<and>
         scan_candidates h st (e # rest) = scan_candidates h st (e\<lparr>condition_key := None\<rparr> # rest)"
proof -
  have "dict_get h st k = PNone"
    using assms(1) by (simp add: dict_get_def map_of_eq_None_iff [THEN iffD2])
  then show ?thesis
    using assms(2-4) by (simp add: edge_matches_def compare_def)
qed

theorem absent_key_matches_default_condition_witness:
  "new_EdgeDef ''a'' ''b'' (Some (Some ''flag'')) None None =
     \<lparr>from_node = ''a'', to_node = ''b'', condition_key = Some ''flag'', operator = Eq,
      cond_value = JNone\<rparr> \<and>
   edge_matches (heap_with_state [(''x'', PInt 1)]) 0
     (new_EdgeDef ''a'' ''b'' (Some (Some ''flag'')) None None) \<and>
   scan_candidates (heap_with_state [(''x'', PInt 1)]) 0
     [new_EdgeDef ''a'' ''b'' (Some (Some ''flag'')) None None,
      new_EdgeDef ''a'' ''c'' None None None] = Inr (Some ''b'')"
proof -
  let ?e = "new_EdgeDef ''a'' ''b'' (Some (Some ''flag'')) None None"
  have k: "''flag'' \<notin> fst ` set (dicts (heap_with_state [(''x'', PInt 1)]) 0)"
    by (simp add: heap_with_state_def)
  have e: "condition_key ?e = Some ''flag''" "operator ?e = Eq" "cond_value ?e = JNone"
    "to_node ?e = ''b''"
    by (simp_all add: new_EdgeDef_def)
  from absent_key_matches_default_condition [OF k e(1-3)] e(4) show ?thesis
    by (simp add: new_EdgeDef_def)
qed

end
